theory Spec2Isabelle
  imports Main "HOL-Library.Word"
begin

unbundle bit_operations_syntax

section \<open>The LCD driver of the attendance terminal (LCD.cpp)\<close>

text \<open>
  The driver talks to a character LCD through an I2C I/O expander. Its state is three
  namespace-level booleans; everything else it does is a call into the bcm2835 library
  or a delay. The model keeps the three booleans in a record together with the trace of
  library calls and delays, in the order in which they happen. A \<open>char\<close> is an
  \<open>8 word\<close>. Console output (\<open>printf\<close>) is not part of the model.
\<close>

subsection \<open>State, hardware and errors\<close>

datatype event =
    I2C_begin
  | I2C_setSlaveAddress nat
  | I2C_write "8 word"
  | I2C_end
  | Usleep nat

record world =
  backlight :: bool
  regSelect :: bool
  readWrite :: bool
  trace :: "event list"

text \<open>
  What the bcm2835 library answers: whether \<open>bcm2835_i2c_begin\<close> succeeds and the status
  \<open>bcm2835_i2c_write\<close> returns for a one-byte message (0 is success). Both may depend on
  everything that happened before.
\<close>

record bcm2835 =
  i2c_begin :: "event list \<Rightarrow> bool"
  i2c_write :: "event list \<Rightarrow> 8 word \<Rightarrow> int"

datatype error = Runtime_error string

definition I2C_SLAVE_ADDRESS :: nat where
  "I2C_SLAVE_ADDRESS = 0x27"

definition BACKLIGHT_BIT :: "8 word" where
  "BACKLIGHT_BIT = 0b00001000"

definition ENABLE_BIT :: "8 word" where
  "ENABLE_BIT = 0b00000100"

definition RDWR_BIT :: "8 word" where
  "RDWR_BIT = 0b00000010"

definition REGSELECT_BIT :: "8 word" where
  "REGSELECT_BIT = 0b00000001"

text \<open>The bytes handed to \<open>bcm2835_i2c_write\<close>, in order.\<close>

fun i2c_bytes :: "event list \<Rightarrow> 8 word list" where
  "i2c_bytes [] = []"
| "i2c_bytes (I2C_write b # es) = b # i2c_bytes es"
| "i2c_bytes (e # es) = i2c_bytes es"

definition usleep :: "nat \<Rightarrow> world \<Rightarrow> world" where
  "usleep us w = w\<lparr>trace := trace w @ [Usleep us]\<rparr>"

subsection \<open>Character encoder\<close>

text \<open>
  \<open>encodeChar\<close> is a \<open>switch\<close> over the character, promoted to \<open>int\<close>. The table lists
  its case labels in source order with the value each returns. The label between
  \<open>'['\<close> and \<open>']'\<close> is not a backslash: the source holds the three bytes EF BF BD between
  the quotes, a multi-character constant of type \<open>int\<close>, whose value under GCC is
  0xEFBFBD. Plain \<open>char\<close> is unsigned on the target (ARM), so the promoted value is
  \<open>uint c\<close>.
\<close>

definition encodeChar_cases :: "(int \<times> 8 word) list" where
  "encodeChar_cases = [
    (of_char (CHR '' ''), 0b00100000), (of_char (CHR ''!''), 0b00100001),
    (of_char (CHR 0x22), 0b00100010), (of_char (CHR ''#''), 0b00100011),
    (of_char (CHR ''$''), 0b00100100), (of_char (CHR ''%''), 0b00100101),
    (of_char (CHR ''&''), 0b00100110), (of_char (CHR 0x27), 0b00100111),
    (of_char (CHR ''(''), 0b00101000), (of_char (CHR '')''), 0b00101001),
    (of_char (CHR ''*''), 0b00101010), (of_char (CHR ''+''), 0b00101011),
    (of_char (CHR '',''), 0b00101100), (of_char (CHR ''-''), 0b00101101),
    (of_char (CHR ''.''), 0b00101110), (of_char (CHR ''/''), 0b00101111),
    (of_char (CHR ''0''), 0b00110000), (of_char (CHR ''1''), 0b00110001),
    (of_char (CHR ''2''), 0b00110010), (of_char (CHR ''3''), 0b00110011),
    (of_char (CHR ''4''), 0b00110100), (of_char (CHR ''5''), 0b00110101),
    (of_char (CHR ''6''), 0b00110110), (of_char (CHR ''7''), 0b00110111),
    (of_char (CHR ''8''), 0b00111000), (of_char (CHR ''9''), 0b00111001),
    (of_char (CHR '':''), 0b00111010), (of_char (CHR '';''), 0b00111011),
    (of_char (CHR ''<''), 0b00111100), (of_char (CHR ''=''), 0b00111101),
    (of_char (CHR ''>''), 0b00111110), (of_char (CHR ''?''), 0b00111111),
    (of_char (CHR ''@''), 0b01000000), (of_char (CHR ''A''), 0b01000001),
    (of_char (CHR ''B''), 0b01000010), (of_char (CHR ''C''), 0b01000011),
    (of_char (CHR ''D''), 0b01000100), (of_char (CHR ''E''), 0b01000101),
    (of_char (CHR ''F''), 0b01000110), (of_char (CHR ''G''), 0b01000111),
    (of_char (CHR ''H''), 0b01001000), (of_char (CHR ''I''), 0b01001001),
    (of_char (CHR ''J''), 0b01001010), (of_char (CHR ''K''), 0b01001011),
    (of_char (CHR ''L''), 0b01001100), (of_char (CHR ''M''), 0b01001101),
    (of_char (CHR ''N''), 0b01001110), (of_char (CHR ''O''), 0b01001111),
    (of_char (CHR ''P''), 0b01010000), (of_char (CHR ''Q''), 0b01010001),
    (of_char (CHR ''R''), 0b01010010), (of_char (CHR ''S''), 0b01010011),
    (of_char (CHR ''T''), 0b01010100), (of_char (CHR ''U''), 0b01010101),
    (of_char (CHR ''V''), 0b01010110), (of_char (CHR ''W''), 0b01010111),
    (of_char (CHR ''X''), 0b01011000), (of_char (CHR ''Y''), 0b01011001),
    (of_char (CHR ''Z''), 0b01011010), (of_char (CHR ''[''), 0b01011011),
    (0xEFBFBD, 0b01011100), (of_char (CHR '']''), 0b01011101),
    (of_char (CHR ''^''), 0b01011110), (of_char (CHR ''_''), 0b01011111),
    (of_char (CHR 0x60), 0b01100000), (of_char (CHR ''a''), 0b01100001),
    (of_char (CHR ''b''), 0b01100010), (of_char (CHR ''c''), 0b01100011),
    (of_char (CHR ''d''), 0b01100100), (of_char (CHR ''e''), 0b01100101),
    (of_char (CHR ''f''), 0b01100110), (of_char (CHR ''g''), 0b01100111),
    (of_char (CHR ''h''), 0b01101000), (of_char (CHR ''i''), 0b01101001),
    (of_char (CHR ''j''), 0b01101010), (of_char (CHR ''k''), 0b01101011),
    (of_char (CHR ''l''), 0b01101100), (of_char (CHR ''m''), 0b01101101),
    (of_char (CHR ''n''), 0b01101110), (of_char (CHR ''o''), 0b01101111),
    (of_char (CHR ''p''), 0b01110000), (of_char (CHR ''q''), 0b01110001),
    (of_char (CHR ''r''), 0b01110010), (of_char (CHR ''s''), 0b01110011),
    (of_char (CHR ''t''), 0b01110100), (of_char (CHR ''u''), 0b01110101),
    (of_char (CHR ''v''), 0b01110110), (of_char (CHR ''w''), 0b01110111),
    (of_char (CHR ''x''), 0b01111000), (of_char (CHR ''y''), 0b01111001),
    (of_char (CHR ''z''), 0b01111010), (of_char (CHR ''{''), 0b01111011),
    (of_char (CHR ''|''), 0b01111100), (of_char (CHR ''}''), 0b01111101)
  ]"

definition encodeChar :: "8 word \<Rightarrow> 8 word" where
  "encodeChar c =
     (case map_of encodeChar_cases (uint c) of
        Some code \<Rightarrow> code
      | None \<Rightarrow> 0b00111111)"

subsection \<open>Raw and nibble writes\<close>

text \<open>\<open>writeRaw\<close> sends one byte and returns the library's status.\<close>

definition writeRaw :: "bcm2835 \<Rightarrow> 8 word \<Rightarrow> world \<Rightarrow> int \<times> world" where
  "writeRaw hw byte w =
     (i2c_write hw (trace w) byte, w\<lparr>trace := trace w @ [I2C_write byte]\<rparr>)"

text \<open>
  \<open>LCD::write\<close>, here \<open>write_lcd\<close> (\<open>write\<close> is a keyword of Isabelle). It is
  \<open>void\<close>: each call of \<open>writeRaw\<close> is an expression statement, so the
  status is dropped (\<open>snd\<close>).
\<close>

definition write_lcd :: "bcm2835 \<Rightarrow> 8 word \<Rightarrow> world \<Rightarrow> world" where
  "write_lcd hw byte0 w0 =
     (let byte = push_bit 4 byte0;
          byte = (if backlight w0 then byte + BACKLIGHT_BIT else byte);
          byte = (if regSelect w0 then byte + REGSELECT_BIT else byte);
          w = snd (writeRaw hw byte w0);
          w = usleep 1500 w;
          w = snd (writeRaw hw (byte OR ENABLE_BIT) w);
          w = usleep 1500 w;
          w = snd (writeRaw hw byte w);
          w = usleep 1500 w
      in w)"

definition writeChar :: "bcm2835 \<Rightarrow> 8 word \<Rightarrow> world \<Rightarrow> world" where
  "writeChar hw c w0 =
     (let ccode = encodeChar c;
          m1 = drop_bit 4 (ccode AND 0b11110000);
          m2 = ccode AND 0b00001111;
          w = w0\<lparr>regSelect := True\<rparr>;
          w = write_lcd hw m1 w;
          w = write_lcd hw m2 w
      in w)"

subsection \<open>Public operations\<close>

text \<open>
  \<open>writeMessage\<close> walks the memory behind the pointer until it reads a zero byte. The
  list is that memory; running off its end (no terminator) is \<open>None\<close>.
\<close>

fun writeMessage :: "bcm2835 \<Rightarrow> 8 word list \<Rightarrow> world \<Rightarrow> world option" where
  "writeMessage hw [] w = None"
| "writeMessage hw (c # message) w =
     (if c = 0 then Some w else writeMessage hw message (writeChar hw c w))"

definition clear :: "bcm2835 \<Rightarrow> world \<Rightarrow> world" where
  "clear hw w0 =
     (let w = w0\<lparr>regSelect := False\<rparr>;
          w = write_lcd hw 0b0000 w;
          w = write_lcd hw 0b0001 w
      in w)"

definition home :: "bcm2835 \<Rightarrow> world \<Rightarrow> world" where
  "home hw w0 =
     (let w = w0\<lparr>regSelect := False\<rparr>;
          w = write_lcd hw 0b0000 w;
          w = write_lcd hw 0b0010 w
      in w)"

text \<open>The body of \<open>goTo\<close> is empty.\<close>

definition goTo :: "bcm2835 \<Rightarrow> int \<Rightarrow> world \<Rightarrow> world" where
  "goTo hw pos w = w"

definition destroy :: "world \<Rightarrow> world" where
  "destroy w = w\<lparr>trace := trace w @ [I2C_end]\<rparr>"

text \<open>A string literal as the memory it occupies: its characters and the terminator.\<close>

definition c_str :: "string \<Rightarrow> 8 word list" where
  "c_str s = map of_char s @ [0]"

text \<open>
  \<open>init\<close> ends with the call \<open>writeMessage("TESTING TESTING", 0)\<close>. LCD.cpp defines only
  the one-argument \<open>writeMessage\<close>; the two-argument overload is declared and defined
  outside the sources at hand, so it is a parameter of the model. An exception it
  throws leaves \<open>init\<close> as it leaves the call. \<open>init\<close> itself throws when the bus
  does not start; the state at that moment is the second component.
\<close>

definition init ::
  "bcm2835 \<Rightarrow> (8 word list \<Rightarrow> int \<Rightarrow> world \<Rightarrow> (error + unit) \<times> world) \<Rightarrow> world
     \<Rightarrow> (error + unit) \<times> world" where
  "init hw writeMessage2 w0 =
     (let started = i2c_begin hw (trace w0);
          w = w0\<lparr>trace := trace w0 @ [I2C_begin]\<rparr>
      in if \<not> started then (Inl (Runtime_error ''Failed to initialize I2C''), w)
         else
           (let w = w\<lparr>trace := trace w @ [I2C_setSlaveAddress I2C_SLAVE_ADDRESS]\<rparr>;
                w = w\<lparr>regSelect := False\<rparr>;
                w = write_lcd hw 0b0010 w; w = usleep 5000 w;
                w = write_lcd hw 0b1000 w; w = usleep 5000 w;
                w = write_lcd hw 0b0000 w;
                w = write_lcd hw 0b1000 w; w = usleep 5000 w;
                w = write_lcd hw 0b0000 w;
                w = write_lcd hw 0b0001 w; w = usleep 5000 w;
                w = write_lcd hw 0b0000 w;
                w = write_lcd hw 0b0110 w; w = usleep 5000 w;
                w = write_lcd hw 0b0000 w;
                w = write_lcd hw 0b1100 w; w = usleep 5000 w;
                w = w\<lparr>backlight := True\<rparr>
            in writeMessage2 (c_str ''TESTING TESTING'') 0 w))"

subsection \<open>What one nibble write puts on the bus\<close>

text \<open>
  \<open>frame bl rs n\<close> is the byte \<open>write_lcd\<close> assembles from the nibble \<open>n\<close> when the
  backlight flag is \<open>bl\<close> and the register selector is \<open>rs\<close> (the first three statements
  of its body); \<open>latch\<close> lists the three bytes it then sends.
\<close>

definition frame :: "bool \<Rightarrow> bool \<Rightarrow> 8 word \<Rightarrow> 8 word" where
  "frame bl rs byte0 =
     (let byte = push_bit 4 byte0;
          byte = (if bl then byte + BACKLIGHT_BIT else byte);
          byte = (if rs then byte + REGSELECT_BIT else byte)
      in byte)"

definition latch :: "bool \<Rightarrow> bool \<Rightarrow> 8 word \<Rightarrow> 8 word list" where
  "latch bl rs n = [frame bl rs n, frame bl rs n OR ENABLE_BIT, frame bl rs n]"

subsection \<open>Concrete hardware and states\<close>

text \<open>
  A bus that starts and acknowledges every byte, a bus that does not start and answers
  every write with status 1 (NACK), the state of the three variables as initialised in
  LCD.cpp with nothing sent yet, and a two-argument \<open>writeMessage\<close> that returns at once.
\<close>

definition ack_hw :: bcm2835 where
  "ack_hw = \<lparr>i2c_begin = (\<lambda>es. True), i2c_write = (\<lambda>es b. 0)\<rparr>"

definition nack_hw :: bcm2835 where
  "nack_hw = \<lparr>i2c_begin = (\<lambda>es. False), i2c_write = (\<lambda>es b. 1)\<rparr>"

definition power_on :: world where
  "power_on = \<lparr>backlight = False, regSelect = False, readWrite = False, trace = []\<rparr>"

definition skip_message :: "8 word list \<Rightarrow> int \<Rightarrow> world \<Rightarrow> (error + unit) \<times> world" where
  "skip_message message pos w = (Inr (), w)"

section \<open>Properties\<close>

subsection \<open>Bits of small constants\<close>

lemma bit_int_8: "bit (8 :: int) k = (k = 3)"
proof -
  have "(8 :: int) = push_bit 3 1" by simp
  then show ?thesis by (simp only: bit_push_bit_iff bit_1_iff) auto
qed

lemma bit_int_4: "bit (4 :: int) k = (k = 2)"
proof -
  have "(4 :: int) = push_bit 2 1" by simp
  then show ?thesis by (simp only: bit_push_bit_iff bit_1_iff) auto
qed

lemma bit_int_15: "bit (15 :: int) k = (k < 4)"
proof -
  have "(15 :: int) = mask 4" by (simp add: mask_eq_exp_minus_1)
  then show ?thesis by (simp only: bit_mask_iff) auto
qed

subsection \<open>The assembled frame\<close>

lemma frame_or:
  "frame bl rs n = (push_bit 4 n OR (if bl then 8 else 0)) OR (if rs then 1 else 0)"
proof -
  have a: "push_bit 4 n + (8 :: 8 word) = push_bit 4 n OR 8"
    by (rule disjunctive_add) (auto simp: bit_int_8 bit_push_bit_iff)
  have b: "x + (1 :: 8 word) = x OR 1" if "\<not> bit x 0" for x
  proof (rule disjunctive_add)
    fix k
    show "\<not> bit x k \<or> \<not> bit (1 :: 8 word) k"
      using that by (cases k) (auto simp: bit_1_iff)
  qed
  have c: "\<not> bit (push_bit 4 n OR (8 :: 8 word)) 0" "\<not> bit (push_bit 4 n :: 8 word) 0"
    by (auto simp: bit_or_iff bit_int_8 bit_push_bit_iff)
  show ?thesis
    by (simp add: frame_def BACKLIGHT_BIT_def REGSELECT_BIT_def Let_def a b c)
qed

lemma frame_bit:
  "bit (frame bl rs n) k =
     (k < 8 \<and> (4 \<le> k \<and> bit n (k - 4) \<or> k = 3 \<and> bl \<or> k = 0 \<and> rs))"
  by (auto simp: frame_or bit_or_iff bit_push_bit_iff bit_int_8 bit_1_iff
      dest: bit_imp_le_length)

lemma frame_data: "drop_bit 4 (frame bl rs n) = n AND 0b1111"
  by (rule bit_word_eqI)
    (auto simp: bit_drop_bit_eq frame_bit bit_and_iff bit_int_15 dest: bit_imp_le_length)

lemma frame_enable: "(frame bl rs n OR ENABLE_BIT) XOR frame bl rs n = 0b00000100"
  by (rule bit_word_eqI)
    (auto simp: ENABLE_BIT_def bit_xor_iff bit_or_iff bit_int_4 frame_bit)

lemma frame_enable_data: "drop_bit 4 (frame bl rs n OR ENABLE_BIT) = n AND 0b1111"
  by (rule bit_word_eqI)
    (auto simp: ENABLE_BIT_def bit_drop_bit_eq bit_or_iff frame_bit bit_and_iff bit_int_15
       bit_int_4 dest: bit_imp_le_length)

subsection \<open>Traces\<close>

lemma i2c_bytes_append: "i2c_bytes (es @ fs) = i2c_bytes es @ i2c_bytes fs"
  by (induction es rule: i2c_bytes.induct) simp_all

lemma usleep_fields:
  "backlight (usleep us w) = backlight w"
  "regSelect (usleep us w) = regSelect w"
  "readWrite (usleep us w) = readWrite w"
  "trace (usleep us w) = trace w @ [Usleep us]"
  by (simp_all add: usleep_def)

lemma write_lcd_trace:
  "trace (write_lcd hw n w) =
     trace w @
     [I2C_write (frame (backlight w) (regSelect w) n), Usleep 1500,
      I2C_write (frame (backlight w) (regSelect w) n OR ENABLE_BIT), Usleep 1500,
      I2C_write (frame (backlight w) (regSelect w) n), Usleep 1500]"
  by (simp add: write_lcd_def writeRaw_def usleep_def frame_def Let_def)

lemma write_lcd_fields:
  "backlight (write_lcd hw n w) = backlight w"
  "regSelect (write_lcd hw n w) = regSelect w"
  "readWrite (write_lcd hw n w) = readWrite w"
  by (simp_all add: write_lcd_def writeRaw_def usleep_def Let_def)

lemma write_lcd_bytes:
  "i2c_bytes (trace (write_lcd hw n w)) =
     i2c_bytes (trace w) @ latch (backlight w) (regSelect w) n"
  by (simp add: write_lcd_trace i2c_bytes_append latch_def)

lemma write_lcd_any_hw: "write_lcd hw n w = write_lcd hw' n w"
  by (simp add: write_lcd_def writeRaw_def Let_def)

lemma drop4_mask: "drop_bit 4 (x :: 8 word) AND 0b1111 = drop_bit 4 x"
  by (rule bit_word_eqI)
    (auto simp: bit_drop_bit_eq bit_and_iff bit_int_15 dest: bit_imp_le_length)

lemma nibbles_join: "push_bit 4 (drop_bit 4 x) OR (x AND 0b1111) = (x :: 8 word)"
  by (rule bit_word_eqI)
    (auto simp: bit_or_iff bit_push_bit_iff bit_drop_bit_eq bit_and_iff bit_int_15)

subsection \<open>The encoder's table\<close>

lemma encodeChar_cases_ranges:
  "encodeChar_cases =
     map (\<lambda>k. (k, word_of_int k)) [0x20..0x5B] @
     (0xEFBFBD, 0x5C) # map (\<lambda>k. (k, word_of_int k)) [0x5D..0x7D]"
  by (simp add: encodeChar_cases_def)

lemma map_of_graph:
  "map_of (map (\<lambda>k. (k, f k)) ks) k = (if k \<in> set ks then Some (f k) else None)"
  by (induction ks) auto

lemma map_of_encodeChar_cases:
  "map_of encodeChar_cases k =
     (if (0x20 \<le> k \<and> k \<le> 0x5B) \<or> (0x5D \<le> k \<and> k \<le> 0x7D) then Some (word_of_int k)
      else if k = 0xEFBFBD then Some 0x5C else None)"
  unfolding encodeChar_cases_ranges
  by (simp add: map_add_def map_of_graph del: upto_rec_numeral)

lemma encodeChar_uint:
  "encodeChar c =
     (if (0x20 \<le> uint c \<and> uint c \<le> 0x5B) \<or> (0x5D \<le> uint c \<and> uint c \<le> 0x7D) then c
      else 0x3F)"
proof -
  have "uint c < 256" using uint_bounded [of c] by simp
  then have "uint c \<noteq> 0xEFBFBD" by simp
  then show ?thesis
    by (simp add: encodeChar_def map_of_encodeChar_cases)
qed

lemma word8_neq_92: "((c :: 8 word) \<noteq> 0x5C) = (uint c \<noteq> 0x5C)"
  by (simp add: word_uint_eq_iff)

text \<open>
  Where plain \<open>char\<close> is signed the character is promoted by \<open>sint\<close>; the \<open>switch\<close>
  then returns the same code, since no label is negative.
\<close>

lemma sint8_a: "sint (c :: 8 word) = (uint c + 128) mod 256 - 128"
proof -
  have "sint (word_of_int (uint c) :: 8 word) = (uint c + 128) mod 256 - 128"
    unfolding int_word_sint by simp
  then show ?thesis by simp
qed

lemma sint8: "sint (c :: 8 word) = (if uint c < 128 then uint c else uint c - 256)"
proof -
  have b: "0 \<le> uint c" "uint c < 256" using uint_bounded [of c] by simp_all
  show ?thesis
  proof (cases "uint c < 128")
    case True
    with b have "(uint c + 128) mod 256 = uint c + 128" by simp
    with True show ?thesis by (simp add: sint8_a)
  next
    case False
    have "uint c + 128 = (uint c - 128) + 256" by linarith
    then have "(uint c + 128) mod 256 = ((uint c - 128) + 256) mod 256" by (simp only:)
    also have "\<dots> = (uint c - 128) mod 256" by (simp only: mod_add_self2)
    also have "\<dots> = uint c - 128"
      by (rule mod_pos_pos_trivial) (use False b in linarith)+
    finally show ?thesis using False by (simp add: sint8_a)
  qed
qed

lemma encodeChar_signed_char:
  "(case map_of encodeChar_cases (sint c) of Some code \<Rightarrow> code | None \<Rightarrow> 0b00111111)
     = encodeChar c"
proof -
  have b: "0 \<le> uint c" "uint c < 256" using uint_bounded [of c] by simp_all
  show ?thesis
  proof (cases "uint c < 128")
    case True
    then have "sint c = uint c" by (simp add: sint8)
    then show ?thesis by (simp add: encodeChar_def)
  next
    case False
    then have "sint c < 0" using b by (simp add: sint8)
    then have "map_of encodeChar_cases (sint c) = None"
      by (simp add: map_of_encodeChar_cases)
    moreover have "encodeChar c = 0x3F"
      using False by (simp add: encodeChar_uint)
    ultimately show ?thesis by simp
  qed
qed

subsection \<open>Characters and messages\<close>

lemma writeChar_fields:
  "backlight (writeChar hw c w) = backlight w"
  "regSelect (writeChar hw c w) = True"
  "readWrite (writeChar hw c w) = readWrite w"
  by (simp_all add: writeChar_def Let_def write_lcd_fields)

lemma writeChar_bytes:
  "i2c_bytes (trace (writeChar hw c w)) =
     i2c_bytes (trace w) @
     latch (backlight w) True (drop_bit 4 (encodeChar c)) @
     latch (backlight w) True (encodeChar c AND 0b1111)"
  by (simp add: writeChar_def Let_def write_lcd_bytes write_lcd_fields drop4_mask)

lemma writeChar_any_hw: "writeChar hw c w = writeChar hw' c w"
  unfolding writeChar_def Let_def by (simp add: write_lcd_any_hw [of hw _ _ hw'])

lemma writeMessage_any_hw: "writeMessage hw message w = writeMessage hw' message w"
  by (induction message arbitrary: w) (simp_all add: writeChar_any_hw [of hw _ _ hw'])

lemma writeMessage_terminated:
  "0 \<notin> set s \<Longrightarrow>
   \<exists>w'. writeMessage hw (s @ 0 # rest) w = Some w'
     \<and> i2c_bytes (trace w') =
         i2c_bytes (trace w) @
         concat (map (latch (backlight w) True)
           (concat (map (\<lambda>c. [drop_bit 4 (encodeChar c), encodeChar c AND 0b1111]) s)))"
proof (induction s arbitrary: w)
  case Nil
  then show ?case by simp
next
  case (Cons c s)
  then have "c \<noteq> 0" "0 \<notin> set s" by auto
  with Cons.IH [of "writeChar hw c w"] show ?case
    by (auto simp: writeChar_bytes writeChar_fields)
qed

lemma writeMessage_fields:
  "\<exists>w'. writeMessage hw (s @ 0 # rest) w = Some w'
     \<and> backlight w' = backlight w \<and> readWrite w' = readWrite w"
proof (induction s arbitrary: w)
  case Nil
  then show ?case by simp
next
  case (Cons c s)
  with Cons.IH [of "writeChar hw c w"] show ?case
    by (auto simp: writeChar_fields)
qed

subsection \<open>Initialisation\<close>

text \<open>
  With \<open>skip_message\<close> as the two-argument \<open>writeMessage\<close>, the state \<open>init\<close> returns is
  the state in which it makes that call.
\<close>

lemma init_started:
  "i2c_begin hw (trace w) \<Longrightarrow>
   init hw writeMessage2 w =
     writeMessage2 (c_str ''TESTING TESTING'') 0 (snd (init hw skip_message w))"
  by (simp add: init_def Let_def skip_message_def)

lemma init_not_started:
  "\<not> i2c_begin hw (trace w) \<Longrightarrow>
   init hw writeMessage2 w =
     (Inl (Runtime_error ''Failed to initialize I2C''), w\<lparr>trace := trace w @ [I2C_begin]\<rparr>)"
  by (simp add: init_def Let_def)

lemma init_started_bytes:
  "i2c_begin hw (trace w) \<Longrightarrow>
   i2c_bytes (trace (snd (init hw skip_message w))) =
     i2c_bytes (trace w) @
     concat (map (latch (backlight w) False)
       [0b0010, 0b1000, 0b0000, 0b1000, 0b0000, 0b0001, 0b0000, 0b0110, 0b0000, 0b1100])"
  by (simp add: init_def Let_def skip_message_def write_lcd_bytes write_lcd_fields
      usleep_fields i2c_bytes_append)

lemma init_started_backlight:
  "i2c_begin hw (trace w) \<Longrightarrow> backlight (snd (init hw skip_message w))"
  by (simp add: init_def Let_def skip_message_def)

section \<open>The claims\<close>

text \<open>
  Claim C1: a failing transport write during a nibble write is surfaced to the caller
  of the LCD operation as an I/O error, never swallowed, and not retried.

  On the code only the last part holds. \<open>writeRaw\<close> hands the status of the one-byte
  write to its caller, \<open>write_lcd\<close>, which drops it: whatever the bus answers, a nibble
  write, \<open>writeChar\<close>, \<open>writeMessage\<close>, \<open>clear\<close> and \<open>home\<close> do the same and return the same;
  a nibble write sends three bytes, no more.
\<close>

theorem write_lcd_drops_status:
  "fst (writeRaw hw byte w) = i2c_write hw (trace w) byte
   \<and> write_lcd hw n w = write_lcd hw' n w
   \<and> writeChar hw c w = writeChar hw' c w
   \<and> writeMessage hw message w = writeMessage hw' message w
   \<and> clear hw w = clear hw' w
   \<and> home hw w = home hw' w
   \<and> length (i2c_bytes (trace (write_lcd hw n w))) = length (i2c_bytes (trace w)) + 3"
proof -
  have "clear hw w = clear hw' w"
    unfolding clear_def Let_def by (simp add: write_lcd_any_hw [of hw _ _ hw'])
  moreover have "home hw w = home hw' w"
    unfolding home_def Let_def by (simp add: write_lcd_any_hw [of hw _ _ hw'])
  ultimately show ?thesis
    using write_lcd_any_hw [of hw n w hw'] writeChar_any_hw [of hw c w hw']
      writeMessage_any_hw [of hw message w hw']
    by (simp add: writeRaw_def write_lcd_bytes latch_def)
qed

text \<open>
  On a bus that answers every write with status 1, the first byte of the nibble write
  of 5 is reported as failed to \<open>write_lcd\<close>; the nibble write still sends its three
  bytes and ends exactly as on a bus that acknowledges everything.
\<close>

theorem write_failure_swallowed_counterexample:
  "fst (writeRaw nack_hw 0x50 power_on) = 1
   \<and> i2c_bytes (trace (write_lcd nack_hw 5 power_on)) = [0x50, 0x54, 0x50]
   \<and> write_lcd nack_hw 5 power_on = write_lcd ack_hw 5 power_on"
  by (simp add: write_lcd_def writeRaw_def usleep_def Let_def nack_hw_def ack_hw_def power_on_def
      BACKLIGHT_BIT_def REGSELECT_BIT_def ENABLE_BIT_def)

text \<open>
  Claim C2: \<open>encodeChar\<close> returns the character's own code for every character from
  space to \<open>}\<close> and the code of \<open>?\<close> for every other character.

  The table has no case for the backslash (0x5C): the label in its place is a
  three-byte constant that no \<open>char\<close> equals. So the backslash gets the fallback, like
  every character outside the range; all other characters of the range map to
  themselves.
\<close>

theorem encodeChar_table:
  "encodeChar c = (if 0x20 \<le> c \<and> c \<le> 0x7D \<and> c \<noteq> 0x5C then c else 0b00111111)"
  unfolding encodeChar_uint word8_neq_92
  by (simp add: word_le_def) arith

text \<open>The backslash lies in the range and is not mapped to itself.\<close>

theorem encodeChar_backslash_counterexample:
  "(0x20 :: 8 word) \<le> 0x5C \<and> (0x5C :: 8 word) \<le> 0x7D \<and> encodeChar 0x5C \<noteq> 0x5C
   \<and> encodeChar 0x5C = 0b00111111"
  by (simp add: encodeChar_def encodeChar_cases_def)

text \<open>
  Claim C3: one nibble write sends exactly three bytes: the frame, the frame with the
  enable bit (bit 2) set, the frame again. The frame has the low four bits of the nibble
  in bits 7 to 4, bit 3 set iff the backlight is on, bit 0 set iff the register selector
  is the character register, and bits 2 and 1 clear; the middle byte differs from it in
  bit 2 only.
\<close>

theorem write_lcd_three_frames:
  "i2c_bytes (trace (write_lcd hw n w)) =
     i2c_bytes (trace w) @
     [frame (backlight w) (regSelect w) n,
      frame (backlight w) (regSelect w) n OR 0b00000100,
      frame (backlight w) (regSelect w) n]
   \<and> drop_bit 4 (frame (backlight w) (regSelect w) n) = n AND 0b1111
   \<and> bit (frame (backlight w) (regSelect w) n) 3 = backlight w
   \<and> \<not> bit (frame (backlight w) (regSelect w) n) 2
   \<and> \<not> bit (frame (backlight w) (regSelect w) n) 1
   \<and> bit (frame (backlight w) (regSelect w) n) 0 = regSelect w
   \<and> (frame (backlight w) (regSelect w) n OR 0b00000100) XOR frame (backlight w) (regSelect w) n
       = 0b00000100"
  using frame_enable [of "backlight w" "regSelect w" n]
  by (simp add: write_lcd_bytes latch_def frame_data frame_bit ENABLE_BIT_def)

text \<open>
  Claim C4: \<open>goTo\<close> sets the cursor address with a DDRAM address-set command computed
  from the position. The code does not: for every position \<open>goTo\<close> returns the state as
  it was and sends nothing.
\<close>

theorem goTo_sends_nothing:
  "goTo hw pos w = w \<and> i2c_bytes (trace (goTo hw pos w)) = i2c_bytes (trace w)"
  by (simp add: goTo_def)

text \<open>
  Claim C5: \<open>clear\<close> selects the command register and sends the clear-display command
  0b00000001 as the nibble writes 0b0000 and 0b0001; the register-select bit (bit 0) is
  clear in each of the six bytes, and the call is not a no-op.
\<close>

theorem clear_sends_clear_display:
  "regSelect (clear hw w) = False
   \<and> i2c_bytes (trace (clear hw w)) =
       i2c_bytes (trace w) @ latch (backlight w) False 0b0000 @ latch (backlight w) False 0b0001
   \<and> latch (backlight w) False 0b0000 @ latch (backlight w) False 0b0001 =
       (if backlight w then [0x08, 0x0C, 0x08, 0x18, 0x1C, 0x18]
        else [0x00, 0x04, 0x00, 0x10, 0x14, 0x10])
   \<and> list_all (\<lambda>b. \<not> bit b 0) (latch (backlight w) False 0b0000 @ latch (backlight w) False 0b0001)
   \<and> push_bit 4 0b0000 OR 0b0001 = (0b00000001 :: 8 word)
   \<and> clear hw w \<noteq> w"
proof -
  have bytes: "i2c_bytes (trace (clear hw w)) =
      i2c_bytes (trace w) @ latch (backlight w) False 0b0000 @ latch (backlight w) False 0b0001"
    by (simp add: clear_def Let_def write_lcd_bytes write_lcd_fields)
  have expl: "latch (backlight w) False 0b0000 @ latch (backlight w) False 0b0001 =
       (if backlight w then [0x08, 0x0C, 0x08, 0x18, 0x1C, 0x18]
        else [0x00, 0x04, 0x00, 0x10, 0x14, 0x10])"
    by (simp add: latch_def frame_def Let_def BACKLIGHT_BIT_def ENABLE_BIT_def)
  have "length (i2c_bytes (trace (clear hw w))) \<noteq> length (i2c_bytes (trace w))"
    unfolding bytes by (simp add: latch_def)
  then have "clear hw w \<noteq> w" by auto
  moreover have "regSelect (clear hw w) = False"
    by (simp add: clear_def Let_def write_lcd_fields)
  moreover have "list_all (\<lambda>b. \<not> bit b 0)
      (latch (backlight w) False 0b0000 @ latch (backlight w) False 0b0001)"
    unfolding expl by simp
  ultimately show ?thesis using bytes expl by simp
qed

text \<open>
  Claim C6: when the bus starts, \<open>init\<close> performs its command nibble writes in the fixed
  order 0b0010 (4-bit mode), 0b1000 (two lines, 5x8), 0b0000 0b1000 (display, cursor and
  blink off), 0b0000 0b0001 (clear and home), 0b0000 0b0110 (entry mode: increment, no
  shift), 0b0000 0b1100 (display on), all with the command register selected; display-on
  is the last of them. These thirty bytes are all that has been sent when \<open>init\<close> calls
  the two-argument \<open>writeMessage\<close> for the test message.
\<close>

theorem init_command_order:
  assumes "i2c_begin hw (trace w)"
  shows "\<exists>w1. init hw writeMessage2 w = writeMessage2 (c_str ''TESTING TESTING'') 0 w1
     \<and> i2c_bytes (trace w1) =
         i2c_bytes (trace w) @
         concat (map (latch (backlight w) False)
           [0b0010, 0b1000, 0b0000, 0b1000, 0b0000, 0b0001, 0b0000, 0b0110, 0b0000, 0b1100])"
  using init_started [OF assms] init_started_bytes [OF assms] by blast

text \<open>From power-on, on a bus that starts: the thirty bytes.\<close>

theorem init_command_order_witness:
  "i2c_begin ack_hw (trace power_on)
   \<and> (\<exists>w1. init ack_hw skip_message power_on = (Inr (), w1)
        \<and> i2c_bytes (trace w1) =
            [0x20, 0x24, 0x20, 0x80, 0x84, 0x80,
             0x00, 0x04, 0x00, 0x80, 0x84, 0x80,
             0x00, 0x04, 0x00, 0x10, 0x14, 0x10,
             0x00, 0x04, 0x00, 0x60, 0x64, 0x60,
             0x00, 0x04, 0x00, 0xC0, 0xC4, 0xC0])"
  using init_command_order [of ack_hw power_on skip_message]
  by (simp add: ack_hw_def power_on_def skip_message_def latch_def frame_def Let_def
      ENABLE_BIT_def)

text \<open>
  Claim C7: for a null-terminated string \<open>s\<close> (the characters \<open>s\<close>, none of them zero,
  then the terminator, then whatever follows in memory), \<open>writeMessage\<close> returns after
  exactly \<open>2 * length s\<close> nibble writes: for each character in order the high and the low
  nibble of its code, every one with the character register selected. For the empty
  string nothing is sent.
\<close>

theorem writeMessage_nibble_writes:
  assumes "0 \<notin> set s"
  shows "\<exists>w'. writeMessage hw (s @ 0 # rest) w = Some w'
     \<and> i2c_bytes (trace w') =
         i2c_bytes (trace w) @
         concat (map (latch (backlight w) True)
           (concat (map (\<lambda>c. [drop_bit 4 (encodeChar c), encodeChar c AND 0b1111]) s)))
     \<and> length (concat (map (\<lambda>c. [drop_bit 4 (encodeChar c), encodeChar c AND 0b1111]) s))
         = 2 * length s"
proof -
  have "length (concat (map (\<lambda>c. [drop_bit 4 (encodeChar c), encodeChar c AND 0b1111]) s))
         = 2 * length s"
    by (induction s) simp_all
  with writeMessage_terminated [OF assms, of hw rest w] show ?thesis by blast
qed

text \<open>The message "HI" makes four nibble writes (twelve bytes), the empty message none.\<close>

theorem writeMessage_nibble_writes_witness:
  "0 \<notin> set [0x48, 0x49 :: 8 word]
   \<and> (\<exists>w'. writeMessage ack_hw [0x48, 0x49, 0] power_on = Some w'
        \<and> i2c_bytes (trace w') =
            [0x41, 0x45, 0x41, 0x81, 0x85, 0x81, 0x41, 0x45, 0x41, 0x91, 0x95, 0x91])
   \<and> (\<exists>w'. writeMessage ack_hw [0] power_on = Some w' \<and> i2c_bytes (trace w') = [])"
  using writeMessage_nibble_writes [of "[0x48, 0x49]" ack_hw "[]" power_on]
    writeMessage_nibble_writes [of "[]" ack_hw "[]" power_on]
  by (simp add: encodeChar_def encodeChar_cases_def latch_def frame_def Let_def power_on_def
      BACKLIGHT_BIT_def REGSELECT_BIT_def ENABLE_BIT_def)

text \<open>
  Claim C8: writing an 8-bit code takes exactly two nibble writes, the high nibble
  (bits 7 to 4) first, the low nibble (bits 3 to 0) second. The split is the one
  \<open>writeChar\<close> makes
  (\<open>m1 = (ccode & 0b11110000) >> 4\<close>, \<open>m2 = ccode & 0b00001111\<close>, \<open>write(m1)\<close>,
  \<open>write(m2)\<close>); it is stated here for every 8-bit code and every state, so for either
  register. The six bytes sent carry the two nibbles in their data bits, and the two
  nibbles make up the code. \<open>writeChar\<close> is this split at the code of its character with
  the character register selected; \<open>clear\<close> and \<open>home\<close> are this split at the command
  codes 0b00000001 and 0b00000010 with the command register selected; and the bytes
  \<open>init\<close> sends before its test message are the nibble pairs of the command codes
  0b00101000, 0b00001000, 0b00000001, 0b00000110 and 0b00001100.
\<close>

theorem writeChar_two_nibbles:
  "i2c_bytes (trace (write_lcd hw (code AND 0b00001111)
       (write_lcd hw (drop_bit 4 (code AND 0b11110000)) w))) =
     i2c_bytes (trace w) @
     latch (backlight w) (regSelect w) (drop_bit 4 code) @
     latch (backlight w) (regSelect w) (code AND 0b1111)
   \<and> map (drop_bit 4)
       (latch (backlight w) (regSelect w) (drop_bit 4 code) @
        latch (backlight w) (regSelect w) (code AND 0b1111)) =
     [drop_bit 4 code, drop_bit 4 code, drop_bit 4 code,
      code AND 0b1111, code AND 0b1111, code AND 0b1111]
   \<and> push_bit 4 (drop_bit 4 code) OR (code AND 0b1111) = code
   \<and> writeChar hw c w =
       write_lcd hw (encodeChar c AND 0b00001111)
         (write_lcd hw (drop_bit 4 (encodeChar c AND 0b11110000)) (w\<lparr>regSelect := True\<rparr>))
   \<and> i2c_bytes (trace (writeChar hw c w)) =
       i2c_bytes (trace w) @
       latch (backlight w) True (drop_bit 4 (encodeChar c)) @
       latch (backlight w) True (encodeChar c AND 0b1111)
   \<and> clear hw w =
       write_lcd hw (0b00000001 AND 0b00001111)
         (write_lcd hw (drop_bit 4 (0b00000001 AND 0b11110000)) (w\<lparr>regSelect := False\<rparr>))
   \<and> home hw w =
       write_lcd hw (0b00000010 AND 0b00001111)
         (write_lcd hw (drop_bit 4 (0b00000010 AND 0b11110000)) (w\<lparr>regSelect := False\<rparr>))
   \<and> (i2c_begin hw (trace w) \<longrightarrow>
        (\<exists>w1. init hw writeMessage2 w = writeMessage2 (c_str ''TESTING TESTING'') 0 w1
           \<and> i2c_bytes (trace w1) =
               i2c_bytes (trace w) @
               concat (map (\<lambda>code. latch (backlight w) False (drop_bit 4 code) @
                                   latch (backlight w) False (code AND 0b1111))
                 [0b00101000, 0b00001000, 0b00000001, 0b00000110, 0b00001100])))"
proof -
  have split: "i2c_bytes (trace (write_lcd hw (code AND 0b00001111)
       (write_lcd hw (drop_bit 4 (code AND 0b11110000)) w))) =
     i2c_bytes (trace w) @
     latch (backlight w) (regSelect w) (drop_bit 4 code) @
     latch (backlight w) (regSelect w) (code AND 0b1111)"
    by (simp add: write_lcd_bytes write_lcd_fields drop4_mask)
  have data: "map (drop_bit 4)
       (latch (backlight w) (regSelect w) (drop_bit 4 code) @
        latch (backlight w) (regSelect w) (code AND 0b1111)) =
     [drop_bit 4 code, drop_bit 4 code, drop_bit 4 code,
      code AND 0b1111, code AND 0b1111, code AND 0b1111]"
    by (simp add: latch_def frame_data frame_enable_data drop4_mask ENABLE_BIT_def
        flip: and.assoc)
  have char: "writeChar hw c w =
       write_lcd hw (encodeChar c AND 0b00001111)
         (write_lcd hw (drop_bit 4 (encodeChar c AND 0b11110000)) (w\<lparr>regSelect := True\<rparr>))"
    by (simp add: writeChar_def Let_def)
  have cmd: "clear hw w =
       write_lcd hw (0b00000001 AND 0b00001111)
         (write_lcd hw (drop_bit 4 (0b00000001 AND 0b11110000)) (w\<lparr>regSelect := False\<rparr>))"
    "home hw w =
       write_lcd hw (0b00000010 AND 0b00001111)
         (write_lcd hw (drop_bit 4 (0b00000010 AND 0b11110000)) (w\<lparr>regSelect := False\<rparr>))"
    by (simp_all add: clear_def home_def Let_def)
  have ini: "\<exists>w1. init hw writeMessage2 w = writeMessage2 (c_str ''TESTING TESTING'') 0 w1
           \<and> i2c_bytes (trace w1) =
               i2c_bytes (trace w) @
               concat (map (\<lambda>code. latch (backlight w) False (drop_bit 4 code) @
                                   latch (backlight w) False (code AND 0b1111))
                 [0b00101000, 0b00001000, 0b00000001, 0b00000110, 0b00001100])"
    if ok: "i2c_begin hw (trace w)"
  proof -
    have "i2c_bytes (trace (snd (init hw skip_message w))) =
               i2c_bytes (trace w) @
               concat (map (\<lambda>code. latch (backlight w) False (drop_bit 4 code) @
                                   latch (backlight w) False (code AND 0b1111))
                 [0b00101000, 0b00001000, 0b00000001, 0b00000110, 0b00001100])"
      by (simp add: init_started_bytes [OF ok])
    with init_started [OF ok, of writeMessage2] show ?thesis by blast
  qed
  show ?thesis
    by (intro conjI impI;
        (rule split data nibbles_join char writeChar_bytes cmd | erule ini))
qed

text \<open>
  The code 0xC5, which is no character's code, goes out as the nibbles 0xC and 0x5; a
  bus that starts gets the five command codes of \<open>init\<close> as thirty bytes.
\<close>

theorem writeChar_two_nibbles_witness:
  "i2c_begin ack_hw (trace power_on)
   \<and> (\<exists>w1. init ack_hw skip_message power_on = (Inr (), w1)
        \<and> i2c_bytes (trace w1) =
            [0x20, 0x24, 0x20, 0x80, 0x84, 0x80,
             0x00, 0x04, 0x00, 0x80, 0x84, 0x80,
             0x00, 0x04, 0x00, 0x10, 0x14, 0x10,
             0x00, 0x04, 0x00, 0x60, 0x64, 0x60,
             0x00, 0x04, 0x00, 0xC0, 0xC4, 0xC0])
   \<and> i2c_bytes (trace (write_lcd ack_hw (0xC5 AND 0b00001111)
         (write_lcd ack_hw (drop_bit 4 (0xC5 AND 0b11110000)) power_on))) =
       [0xC0, 0xC4, 0xC0, 0x50, 0x54, 0x50]"
  using writeChar_two_nibbles [of ack_hw "0xC5" power_on _ skip_message]
  by (simp add: ack_hw_def power_on_def skip_message_def latch_def frame_def Let_def
      ENABLE_BIT_def)

text \<open>
  Claim C9: when the bus does not start, \<open>init\<close> throws the runtime error, sends
  nothing and leaves the three state variables as they were; when the bus starts, it
  does not throw there but goes on to the thirty command bytes and the test message.
\<close>

theorem init_bus_failure:
  "(\<not> i2c_begin hw (trace w) \<longrightarrow>
      init hw writeMessage2 w =
        (Inl (Runtime_error ''Failed to initialize I2C''),
         w\<lparr>trace := trace w @ [I2C_begin]\<rparr>))
   \<and> (i2c_begin hw (trace w) \<longrightarrow>
        (\<exists>w1. init hw writeMessage2 w = writeMessage2 (c_str ''TESTING TESTING'') 0 w1
           \<and> length (i2c_bytes (trace w1)) = length (i2c_bytes (trace w)) + 30))"
proof (intro conjI impI)
  assume "\<not> i2c_begin hw (trace w)"
  then show "init hw writeMessage2 w =
        (Inl (Runtime_error ''Failed to initialize I2C''),
         w\<lparr>trace := trace w @ [I2C_begin]\<rparr>)"
    by (rule init_not_started)
next
  assume ok: "i2c_begin hw (trace w)"
  have "length (i2c_bytes (trace (snd (init hw skip_message w)))) =
      length (i2c_bytes (trace w)) + 30"
    by (simp add: init_started_bytes [OF ok] latch_def)
  with init_started [OF ok, of writeMessage2]
  show "\<exists>w1. init hw writeMessage2 w = writeMessage2 (c_str ''TESTING TESTING'') 0 w1
           \<and> length (i2c_bytes (trace w1)) = length (i2c_bytes (trace w)) + 30"
    by blast
qed

text \<open>A bus that does not start, and one that does, both from power-on.\<close>

theorem init_bus_failure_witness:
  "\<not> i2c_begin nack_hw (trace power_on)
   \<and> init nack_hw skip_message power_on =
       (Inl (Runtime_error ''Failed to initialize I2C''),
        \<lparr>backlight = False, regSelect = False, readWrite = False, trace = [I2C_begin]\<rparr>)
   \<and> i2c_begin ack_hw (trace power_on)
   \<and> fst (init ack_hw skip_message power_on) = Inr ()"
  using init_bus_failure [of nack_hw power_on skip_message]
    init_bus_failure [of ack_hw power_on skip_message]
  by (auto simp: nack_hw_def ack_hw_def power_on_def skip_message_def)

text \<open>
  Claim C10: \<open>writeChar\<close>, \<open>writeMessage\<close>, \<open>clear\<close> and \<open>home\<close> leave \<open>backlight\<close> and
  \<open>readWrite\<close> as they were. Of the driver's operations only \<open>init\<close> changes
  \<open>backlight\<close>: the nibble write, \<open>writeRaw\<close>, \<open>goTo\<close> and \<open>destroy\<close> keep it, and \<open>init\<close>
  has set it by the time it writes the test message.
\<close>

theorem backlight_readWrite_kept:
  "backlight (writeChar hw c w) = backlight w \<and> readWrite (writeChar hw c w) = readWrite w
   \<and> (\<exists>w'. writeMessage hw (s @ 0 # rest) w = Some w'
         \<and> backlight w' = backlight w \<and> readWrite w' = readWrite w)
   \<and> backlight (clear hw w) = backlight w \<and> readWrite (clear hw w) = readWrite w
   \<and> backlight (home hw w) = backlight w \<and> readWrite (home hw w) = readWrite w
   \<and> backlight (write_lcd hw n w) = backlight w
   \<and> backlight (snd (writeRaw hw b w)) = backlight w
   \<and> backlight (goTo hw pos w) = backlight w
   \<and> backlight (destroy w) = backlight w
   \<and> (\<exists>w1. backlight w1
         \<and> init hw writeMessage2 w =
             (if i2c_begin hw (trace w) then writeMessage2 (c_str ''TESTING TESTING'') 0 w1
              else (Inl (Runtime_error ''Failed to initialize I2C''),
                    w\<lparr>trace := trace w @ [I2C_begin]\<rparr>)))"
proof -
  have "\<exists>w1. backlight w1
         \<and> init hw writeMessage2 w =
             (if i2c_begin hw (trace w) then writeMessage2 (c_str ''TESTING TESTING'') 0 w1
              else (Inl (Runtime_error ''Failed to initialize I2C''),
                    w\<lparr>trace := trace w @ [I2C_begin]\<rparr>))"
  proof (cases "i2c_begin hw (trace w)")
    case True
    with init_started [OF True, of writeMessage2] init_started_backlight [OF True]
    show ?thesis by auto
  next
    case False
    with init_not_started [OF False, of writeMessage2]
    show ?thesis by (intro exI [of _ "w\<lparr>backlight := True\<rparr>"]) simp
  qed
  moreover have "backlight (clear hw w) = backlight w" "readWrite (clear hw w) = readWrite w"
    "backlight (home hw w) = backlight w" "readWrite (home hw w) = readWrite w"
    by (simp_all add: clear_def home_def Let_def write_lcd_fields)
  moreover have "backlight (snd (writeRaw hw b w)) = backlight w"
    "backlight (goTo hw pos w) = backlight w" "backlight (destroy w) = backlight w"
    by (simp_all add: writeRaw_def goTo_def destroy_def)
  ultimately show ?thesis
    using writeMessage_fields [of hw s rest w]
    by (simp add: writeChar_fields write_lcd_fields)
qed

end
